theory Spec2Isabelle
  imports Complex_Main "HOL-Library.AList" "HOL-Library.Multiset"
begin

section \<open>PoseGuard AI: the backend of \<open>src/backend/main.py\<close> and the console's risk engine\<close>

text \<open>
  Conventions of the embedding.
  \<^item> Python's \<open>int\<close> is \<^typ>\<open>int\<close>; Python's \<open>float\<close> (IEEE double) is idealised as
    \<^typ>\<open>real\<close>, so every statement about angles, weights and means is a statement about
    exact real arithmetic. Where the float computation rounds, a comparison at a threshold
    or a truncation can come out differently in the program.
  \<^item> A \<open>dict\<close> whose iteration order the code relies on is an association list in insertion
    order; \<open>d[k] = v\<close> is \<^const>\<open>AList.update\<close>, which overwrites in place or appends.
  \<^item> A raised exception is the \<open>Inl\<close> of a sum.
  \<^item> Strings are byte strings in UTF-8; the non-ASCII characters of the modelled literals
    are spelled out as their bytes.
\<close>

datatype error = IndexError | ZeroDivisionError | ValueError

definition bind_res :: "error + 'a \<Rightarrow> ('a \<Rightarrow> error + 'b) \<Rightarrow> error + 'b" where
  "bind_res m f = (case m of Inl e \<Rightarrow> Inl e | Inr x \<Rightarrow> f x)"

subsection \<open>Formatting integers\<close>

definition digit_char :: "nat \<Rightarrow> char" where
  "digit_char d =
     (if d = 0 then CHR ''0'' else if d = 1 then CHR ''1'' else if d = 2 then CHR ''2''
      else if d = 3 then CHR ''3'' else if d = 4 then CHR ''4'' else if d = 5 then CHR ''5''
      else if d = 6 then CHR ''6'' else if d = 7 then CHR ''7'' else if d = 8 then CHR ''8''
      else CHR ''9'')"

fun str_nat :: "nat \<Rightarrow> string" where
  "str_nat n = (if n < 10 then [digit_char n] else str_nat (n div 10) @ [digit_char (n mod 10)])"

declare str_nat.simps [simp del]

text \<open>\<open>str(i)\<close>, which is also what \<open>f"{i}"\<close> prints for an integer.\<close>

definition str_int :: "int \<Rightarrow> string" where
  "str_int i = (if i < 0 then CHR ''-'' # str_nat (nat (- i)) else str_nat (nat i))"

text \<open>\<open>f"{i:02d}"\<close>: at least two characters, padded with zeros after the sign.\<close>

definition str_int_02d :: "int \<Rightarrow> string" where
  "str_int_02d i =
     (if i < 0 then CHR ''-'' # str_nat (nat (- i))
      else if i < 10 then CHR ''0'' # str_nat (nat i)
      else str_nat (nat i))"

text \<open>\<open>int(x)\<close> of a float: truncation towards zero.\<close>

definition py_int :: "real \<Rightarrow> int" where
  "py_int x = (if 0 \<le> x then \<lfloor>x\<rfloor> else \<lceil>x\<rceil>)"

text \<open>\<open>round(x, 1)\<close>: the nearest multiple of one tenth, a tie going to the even one.\<close>

definition py_round1 :: "real \<Rightarrow> real" where
  "py_round1 x =
     (let y = x * 10; f = \<lfloor>y\<rfloor>; d = y - of_int f
      in of_int (if d < 1 / 2 then f else if 1 / 2 < d then f + 1
                 else if even f then f else f + 1) / 10)"

subsection \<open>Constant tables\<close>

definition em_dash :: string where
  "em_dash = [CHR 0xE2, CHR 0x80, CHR 0x94]"

definition FACTOR_TO_PART :: "(string \<times> string) list" where
  "FACTOR_TO_PART =
     [(''L_ACL'', ''knee''), (''R_ACL'', ''knee''),
      (''L_Hip'', ''hip''), (''R_Hip'', ''hip''),
      (''Trunk'', ''lower_back''),
      (''Shoulder_Asym'', ''shoulder''),
      (''Hip_Asym'', ''hip''),
      (''L_Ankle'', ''ankle''), (''R_Ankle'', ''ankle'')]"

definition FACTOR_DESCRIPTIONS :: "(string \<times> string) list" where
  "FACTOR_DESCRIPTIONS =
     [(''L_ACL'', ''Left knee valgus detected '' @ em_dash @
         '' ACL injury risk from inward knee collapse during movement.''),
      (''R_ACL'', ''Right knee valgus detected '' @ em_dash @
         '' ACL injury risk from inward knee collapse during movement.''),
      (''L_Hip'', ''Left hip flexion exceeds safe range '' @ em_dash @
         '' potential hip flexor strain.''),
      (''R_Hip'', ''Right hip flexion exceeds safe range '' @ em_dash @
         '' potential hip flexor strain.''),
      (''Trunk'', ''Excessive trunk lean detected '' @ em_dash @
         '' increased spinal load and lower back injury risk.''),
      (''Shoulder_Asym'', ''Shoulder asymmetry detected '' @ em_dash @
         '' compensatory strain pattern increasing injury risk.''),
      (''Hip_Asym'', ''Hip asymmetry detected '' @ em_dash @
         '' uneven load distribution may lead to overuse injury.''),
      (''L_Ankle'', ''Left ankle dorsiflexion concern '' @ em_dash @
         '' poor landing mechanics increasing joint stress.''),
      (''R_Ankle'', ''Right ankle dorsiflexion concern '' @ em_dash @
         '' poor landing mechanics increasing joint stress.'')]"

text \<open>\<open>d.get(k, default)\<close>.\<close>

definition dict_get :: "('k \<times> 'v) list \<Rightarrow> 'k \<Rightarrow> 'v \<Rightarrow> 'v" where
  "dict_get d k dflt = (case map_of d k of None \<Rightarrow> dflt | Some v \<Rightarrow> v)"

subsection \<open>Helpers\<close>

definition risk_severity :: "int \<Rightarrow> string" where
  "risk_severity score =
     (if score < 30 then ''LOW''
      else if score < 60 then ''MEDIUM''
      else if score < 80 then ''HIGH''
      else ''CRITICAL'')"

text \<open>
  \<open>frames_to_timestamp\<close>: \<open>seconds // 60\<close> and \<open>seconds % 60\<close> are the floored quotient and
  its remainder; the division by \<open>fps\<close> raises when \<open>fps\<close> is zero.
\<close>

definition frames_to_timestamp :: "int \<Rightarrow> real \<Rightarrow> error + string" where
  "frames_to_timestamp frame fps =
     (if fps = 0 then Inl ZeroDivisionError
      else
        let seconds = of_int frame / fps;
            mins = py_int (of_int \<lfloor>seconds / 60\<rfloor>);
            secs = py_int (seconds - 60 * of_int \<lfloor>seconds / 60\<rfloor>)
        in Inr (str_int mins @ '':'' @ str_int_02d secs))"

subsection \<open>Event detection in \<open>process_video\<close>\<close>

record factor_state =
  active :: bool
  start_frame :: int
  peak_risk :: int
  peak_frame :: int
  peak_angle :: "real option"

record risk_event =
  timestamp :: string
  frame :: int
  risk :: int
  part :: string
  severity :: string
  description :: string
  angle :: "real option"

definition initial_state :: factor_state where
  "initial_state =
     \<lparr>active = False, start_frame = 0, peak_risk = 0, peak_frame = 0, peak_angle = None\<rparr>"

definition DETAIL_KEYS :: "(string \<times> string) list" where
  "DETAIL_KEYS =
     [(''L_ACL'', ''L_Knee''), (''R_ACL'', ''R_Knee''),
      (''L_Hip'', ''L_Hip''), (''R_Hip'', ''R_Hip''), (''Trunk'', ''Trunk'')]"

text \<open>\<open>frame_details_all.get(detail_key)\<close>, where \<open>detail_key\<close> itself may be \<open>None\<close>.\<close>

definition detail_angle :: "(string \<times> real) list \<Rightarrow> string \<Rightarrow> real option" where
  "detail_angle frame_details_all factor =
     (case map_of DETAIL_KEYS factor of
        None \<Rightarrow> None
      | Some detail_key \<Rightarrow> map_of frame_details_all detail_key)"

text \<open>The dictionary that both the deactivation branch and the final flush append.\<close>

definition make_event :: "real \<Rightarrow> string \<Rightarrow> factor_state \<Rightarrow> error + risk_event" where
  "make_event fps factor state =
     bind_res (frames_to_timestamp (peak_frame state) fps) (\<lambda>ts.
       Inr \<lparr>timestamp = ts,
            frame = peak_frame state,
            risk = peak_risk state,
            part = dict_get FACTOR_TO_PART factor factor,
            severity = risk_severity (peak_risk state),
            description = dict_get FACTOR_DESCRIPTIONS factor (''Risk detected in '' @ factor),
            angle = map_option py_round1 (peak_angle state)\<rparr>)"

type_synonym factor_states = "(string \<times> factor_state) list"

text \<open>
  One iteration of \<open>for factor, risk_val in frame_risks_all.items()\<close>: the state of the
  factor is created on first sight, then one of the three branches runs (or none, when the
  factor is inactive and stays below 30).
\<close>

definition track_factor ::
  "real \<Rightarrow> int \<Rightarrow> (string \<times> real) list \<Rightarrow> factor_states \<times> risk_event list \<Rightarrow>
   string \<times> int \<Rightarrow> error + factor_states \<times> risk_event list" where
  "track_factor fps frame_count frame_details_all acc fr =
     (let factor_states = fst acc; risk_events = snd acc;
          factor = fst fr; risk_val = snd fr;
          state = dict_get factor_states factor initial_state
      in if risk_val \<ge> 30 \<and> \<not> active state then
           Inr (AList.update factor
                  (state\<lparr>active := True, start_frame := frame_count, peak_risk := risk_val,
                         peak_frame := frame_count,
                         peak_angle := detail_angle frame_details_all factor\<rparr>)
                  factor_states, risk_events)
         else if risk_val \<ge> 30 \<and> active state then
           (if risk_val > peak_risk state then
              Inr (AList.update factor
                     (state\<lparr>peak_risk := risk_val, peak_frame := frame_count,
                            peak_angle := detail_angle frame_details_all factor\<rparr>)
                     factor_states, risk_events)
            else Inr (AList.update factor state factor_states, risk_events))
         else if risk_val < 30 \<and> active state then
           bind_res (make_event fps factor state) (\<lambda>e.
             Inr (AList.update factor (state\<lparr>active := False\<rparr>) factor_states,
                  risk_events @ [e]))
         else Inr (AList.update factor state factor_states, risk_events))"

fun track_factors ::
  "real \<Rightarrow> int \<Rightarrow> (string \<times> real) list \<Rightarrow> factor_states \<times> risk_event list \<Rightarrow>
   (string \<times> int) list \<Rightarrow> error + factor_states \<times> risk_event list" where
  "track_factors fps frame_count frame_details_all acc [] = Inr acc"
| "track_factors fps frame_count frame_details_all acc (fr # frs) =
     bind_res (track_factor fps frame_count frame_details_all acc fr) (\<lambda>acc'.
       track_factors fps frame_count frame_details_all acc' frs)"

text \<open>
  The frames of the \<open>while\<close> loop, as far as event detection goes: each frame brings its
  \<open>frame_risks_all\<close> and \<open>frame_details_all\<close>, and \<open>frame_count\<close> is incremented before
  the frame is looked at.
\<close>

type_synonym frame_result = "(string \<times> int) list \<times> (string \<times> real) list"

fun detect_frames ::
  "real \<Rightarrow> int \<Rightarrow> factor_states \<times> risk_event list \<Rightarrow> frame_result list \<Rightarrow>
   error + int \<times> factor_states \<times> risk_event list" where
  "detect_frames fps frame_count acc [] = Inr (frame_count, acc)"
| "detect_frames fps frame_count acc (fr # frs) =
     bind_res (track_factors fps (frame_count + 1) (snd fr) acc (fst fr)) (\<lambda>acc'.
       detect_frames fps (frame_count + 1) acc' frs)"

text \<open>\<open># Flush any still-active events\<close>\<close>

fun flush_events ::
  "real \<Rightarrow> risk_event list \<Rightarrow> factor_states \<Rightarrow> error + risk_event list" where
  "flush_events fps risk_events [] = Inr risk_events"
| "flush_events fps risk_events (fs # fss) =
     (if active (snd fs) \<and> peak_risk (snd fs) \<ge> 30 then
        bind_res (make_event fps (fst fs) (snd fs)) (\<lambda>e.
          flush_events fps (risk_events @ [e]) fss)
      else flush_events fps risk_events fss)"

text \<open>The events of a whole video: every frame from empty state, then the flush.\<close>

definition detect_events :: "real \<Rightarrow> frame_result list \<Rightarrow> error + risk_event list" where
  "detect_events fps frames =
     bind_res (detect_frames fps 0 ([], []) frames) (\<lambda>r.
       flush_events fps (snd (snd r)) (fst (snd r)))"

subsection \<open>Invariants of event detection\<close>

text \<open>Every recorded event carries a risk of at least 30 and the severity of that risk.\<close>

definition events_ok :: "risk_event list \<Rightarrow> bool" where
  "events_ok evs = list_all (\<lambda>e. risk e \<ge> 30 \<and> severity e = risk_severity (risk e)) evs"

text \<open>Every active factor state has a recorded peak of at least 30.\<close>

definition states_ok :: "factor_states \<Rightarrow> bool" where
  "states_ok fss = list_all (\<lambda>fs. active (snd fs) \<longrightarrow> peak_risk (snd fs) \<ge> 30) fss"

subsection \<open>Videos in which one factor is measured\<close>


subsection \<open>Deduplication of events in \<open>process_video\<close>\<close>

text \<open>
  \<open>for e in sorted(risk_events, key=lambda x: -x["risk"])\<close> with the set \<open>seen\<close> and the
  list \<open>unique_events\<close>. Python's \<open>sorted\<close> is stable, as \<^const>\<open>sort_key\<close> is.
\<close>

fun dedup_loop ::
  "(string \<times> string) set \<Rightarrow> risk_event list \<Rightarrow> risk_event list \<Rightarrow> risk_event list" where
  "dedup_loop seen unique_events [] = unique_events"
| "dedup_loop seen unique_events (e # es) =
     (let key = (timestamp e, part e)
      in if key \<notin> seen then dedup_loop (insert key seen) (unique_events @ [e]) es
         else dedup_loop seen unique_events es)"

definition deduplicate :: "risk_event list \<Rightarrow> risk_event list" where
  "deduplicate risk_events = dedup_loop {} [] (sort_key (\<lambda>x. - risk x) risk_events)"

text \<open>
  The wording of the specification, for comparison: of the elements of a list, keep each
  one that no earlier element shares its key with.
\<close>

definition first_occurrences :: "('a \<Rightarrow> 'k) \<Rightarrow> 'a list \<Rightarrow> 'a list" where
  "first_occurrences key xs =
     map (\<lambda>i. xs ! i) (filter (\<lambda>i. \<forall>j < i. key (xs ! j) \<noteq> key (xs ! i)) [0..<length xs])"

definition event_key :: "risk_event \<Rightarrow> string \<times> string" where
  "event_key e = (timestamp e, part e)"

text \<open>An event of the knee at \<open>0:05\<close> (frame 150 at 30 frames per second).\<close>

definition knee_event :: "int \<Rightarrow> risk_event" where
  "knee_event r = \<lparr>timestamp = ''0:05'', frame = 150, risk = r, part = ''knee'',
      severity = risk_severity r, description = dict_get FACTOR_DESCRIPTIONS ''L_ACL'' [],
      angle = None\<rparr>"

subsection \<open>\<open>generate_suggestions\<close>\<close>

text \<open>The eight literals of \<open>generate_suggestions\<close>, named.\<close>

definition SUGGEST_KNEE :: string where
  "SUGGEST_KNEE = ''Implement knee valgus correction drills '' @ em_dash @
     '' single-leg squats and knee-over-toe exercises''"

definition SUGGEST_HIP :: string where
  "SUGGEST_HIP = ''Add hip mobility and glute activation warm-up before training sessions''"

definition SUGGEST_LOWER_BACK :: string where
  "SUGGEST_LOWER_BACK =
     ''Strengthen core with anti-extension exercises (planks, dead bugs, pallof press)''"

definition SUGGEST_SHOULDER :: string where
  "SUGGEST_SHOULDER =
     ''Include rotator cuff strengthening and shoulder mobility work pre-session''"

definition SUGGEST_ANKLE :: string where
  "SUGGEST_ANKLE = ''Work on ankle mobility and dorsiflexion with banded stretches''"

definition SUGGEST_HIGH :: string where
  "SUGGEST_HIGH = ''Overall risk is HIGH '' @ em_dash @
     '' consider reducing training intensity and scheduling a biomechanics review''"

definition SUGGEST_MODERATE :: string where
  "SUGGEST_MODERATE = ''Moderate risk levels detected '' @ em_dash @
     '' monitor form closely during high-intensity phases''"

definition SUGGEST_GOOD :: string where
  "SUGGEST_GOOD = ''Good biomechanics observed '' @ em_dash @
     '' maintain current form and continue injury prevention exercises''"

text \<open>\<open>parts_at_risk\<close> is the set of the parts of the events; each \<open>append\<close> extends the list.\<close>

definition generate_suggestions :: "risk_event list \<Rightarrow> real \<Rightarrow> string list" where
  "generate_suggestions events avg_risk =
     (let suggestions = [];
          parts_at_risk = set (map part events);
          suggestions = (if ''knee'' \<in> parts_at_risk
                         then suggestions @ [SUGGEST_KNEE] else suggestions);
          suggestions = (if ''hip'' \<in> parts_at_risk
                         then suggestions @ [SUGGEST_HIP] else suggestions);
          suggestions = (if ''lower_back'' \<in> parts_at_risk
                         then suggestions @ [SUGGEST_LOWER_BACK] else suggestions);
          suggestions = (if ''shoulder'' \<in> parts_at_risk
                         then suggestions @ [SUGGEST_SHOULDER] else suggestions);
          suggestions = (if ''ankle'' \<in> parts_at_risk
                         then suggestions @ [SUGGEST_ANKLE] else suggestions);
          suggestions = (if avg_risk > 60 then suggestions @ [SUGGEST_HIGH]
                         else if avg_risk > 40 then suggestions @ [SUGGEST_MODERATE]
                         else suggestions);
          suggestions = (if suggestions = [] then suggestions @ [SUGGEST_GOOD] else suggestions)
      in suggestions)"

text \<open>
  The wording of the specification, for comparison: the catalog of per-part suggestions in
  its fixed order, filtered to the parts present among the events, and the suggestion of
  the risk band.
\<close>

definition PART_CATALOG :: "(string \<times> string) list" where
  "PART_CATALOG =
     [(''knee'', SUGGEST_KNEE), (''hip'', SUGGEST_HIP), (''lower_back'', SUGGEST_LOWER_BACK),
      (''shoulder'', SUGGEST_SHOULDER), (''ankle'', SUGGEST_ANKLE)]"

definition per_part_suggestions :: "risk_event list \<Rightarrow> string list" where
  "per_part_suggestions events =
     map snd (filter (\<lambda>c. fst c \<in> set (map part events)) PART_CATALOG)"

definition risk_band_suggestion :: "real \<Rightarrow> string list" where
  "risk_band_suggestion avg_risk =
     (if avg_risk > 60 then [SUGGEST_HIGH] else if avg_risk > 40 then [SUGGEST_MODERATE] else [])"

subsection \<open>Strings of the replies\<close>

definition lower_char :: "char \<Rightarrow> char" where
  "lower_char c =
     (let n = (of_char c :: nat) in if 65 \<le> n \<and> n \<le> 90 then char_of (n + 32) else c)"

definition upper_char :: "char \<Rightarrow> char" where
  "upper_char c =
     (let n = (of_char c :: nat) in if 97 \<le> n \<and> n \<le> 122 then char_of (n - 32) else c)"

definition is_letter :: "char \<Rightarrow> bool" where
  "is_letter c =
     (let n = (of_char c :: nat) in (65 \<le> n \<and> n \<le> 90) \<or> (97 \<le> n \<and> n \<le> 122))"

text \<open>\<open>s.lower()\<close>, on the ASCII letters of a byte string.\<close>

definition py_lower :: "string \<Rightarrow> string" where
  "py_lower s = map lower_char s"

text \<open>
  \<open>s.title()\<close>: a letter that follows a letter is lowercased, any other letter is
  uppercased.
\<close>

fun title_from :: "bool \<Rightarrow> string \<Rightarrow> string" where
  "title_from prev_cased [] = []"
| "title_from prev_cased (c # cs) =
     (if is_letter c
      then (if prev_cased then lower_char c else upper_char c) # title_from True cs
      else c # title_from False cs)"

definition py_title :: "string \<Rightarrow> string" where
  "py_title s = title_from False s"

text \<open>\<open>s.replace("_", " ")\<close>\<close>

definition underscores_to_spaces :: "string \<Rightarrow> string" where
  "underscores_to_spaces s = map (\<lambda>c. if c = CHR ''_'' then CHR '' '' else c) s"

fun starts_with :: "string \<Rightarrow> string \<Rightarrow> bool" where
  "starts_with [] s = True"
| "starts_with (k # ks) [] = False"
| "starts_with (k # ks) (c # cs) = (k = c \<and> starts_with ks cs)"

text \<open>\<open>kw in text\<close>\<close>

fun is_substring :: "string \<Rightarrow> string \<Rightarrow> bool" where
  "is_substring kw [] = (kw = [])"
| "is_substring kw (c # cs) = (starts_with kw (c # cs) \<or> is_substring kw cs)"

text \<open>\<open>sep.join(xs)\<close>\<close>

fun py_join :: "string \<Rightarrow> string list \<Rightarrow> string" where
  "py_join sep [] = []"
| "py_join sep [x] = x"
| "py_join sep (x # y # ys) = x @ sep @ py_join sep (y # ys)"

text \<open>
  What \<open>f"{x}"\<close> prints for a float that \<open>round(_, 1)\<close> returned: the integer part, a
  point and one digit.
\<close>

definition str_float1 :: "real \<Rightarrow> string" where
  "str_float1 x =
     (let t = \<lfloor>\<bar>x\<bar> * 10\<rfloor>
      in (if x < 0 then ''-'' else []) @ str_nat (nat (t div 10)) @ ''.'' @
         [digit_char (nat (t mod 10))])"

text \<open>\<open>max(xs, key=...)\<close>: the first of the elements with the greatest key; raises on \<open>[]\<close>.\<close>

fun max_by_from :: "('a \<Rightarrow> int) \<Rightarrow> 'a \<Rightarrow> 'a list \<Rightarrow> 'a" where
  "max_by_from key best [] = best"
| "max_by_from key best (x # xs) = max_by_from key (if key best < key x then x else best) xs"

definition py_max_by :: "('a \<Rightarrow> int) \<Rightarrow> 'a list \<Rightarrow> error + 'a" where
  "py_max_by key xs = (case xs of [] \<Rightarrow> Inl ValueError | x # ys \<Rightarrow> Inr (max_by_from key x ys))"

subsection \<open>The analysis store\<close>

text \<open>
  The dictionaries stored in \<open>analyses\<close> have three shapes, told apart by \<open>status\<close>: the
  placeholder that \<open>upload_video\<close> writes, the error record and the record that
  \<open>process_video\<close> writes at its end. The keys of the last are the fields \<open>an_...\<close>; the
  store is the dictionary in insertion order.
\<close>

record keypoint_sample =
  kp_x :: real
  kp_y :: real
  kp_confidence :: real
  kp_name :: string

record analysis_done =
  an_videoId :: string
  an_sport :: string
  an_playerName :: string
  an_overallRisk :: int
  an_overallSeverity :: string
  an_duration :: string
  an_fps :: int
  an_risks :: "risk_event list"
  an_pose_keypoints :: "keypoint_sample list list"
  an_suggestions :: "string list"
  an_riskTimeline :: "int list"
  an_annotatedVideoUrl :: string
  an_totalFrames :: int
  an_peakRisk :: int

datatype analysis =
    Processing string
  | Failed string string
  | Done analysis_done

fun status :: "analysis \<Rightarrow> string" where
  "status (Processing video_id) = ''processing''"
| "status (Failed video_id err) = ''error''"
| "status (Done d) = ''done''"

type_synonym store = "(string \<times> analysis) list"

subsection \<open>\<open>chat_with_ai\<close>\<close>

record ChatMessage =
  message :: string
  videoId :: "string option"

record ChatResponse =
  reply :: string
  confidence :: real
  relatedTimestamp :: "string option"

definition hourglass :: string where
  "hourglass = [CHR 0xE2, CHR 0x8F, CHR 0xB3]"

definition PROCESSING_REPLY :: string where
  "PROCESSING_REPLY = hourglass @
     '' The analysis is still processing. Please wait for it to complete before asking questions.''"

definition part_keywords :: "(string \<times> string list) list" where
  "part_keywords =
     [(''knee'', [''knee'', ''acl'', ''valgus'']),
      (''hip'', [''hip'']),
      (''lower_back'', [''back'', ''lumbar'', ''spine'', ''trunk'']),
      (''shoulder'', [''shoulder'', ''rotation'']),
      (''ankle'', [''ankle'', ''dorsiflexion''])]"

text \<open>
  The inner loop over \<open>part_keywords.items()\<close> appends the risk at the first entry that
  matches and breaks: the risk is kept when some entry matches.
\<close>

definition risk_matches :: "string \<Rightarrow> risk_event \<Rightarrow> bool" where
  "risk_matches text r =
     list_ex (\<lambda>pk. part r = fst pk \<and> list_ex (\<lambda>kw. is_substring kw text) (snd pk))
       part_keywords"

definition magnifier :: string where
  "magnifier = [CHR 0xF0, CHR 0x9F, CHR 0x94, CHR 0x8D]"

definition bar_chart :: string where
  "bar_chart = [CHR 0xF0, CHR 0x9F, CHR 0x93, CHR 0x8A]"

definition robot :: string where
  "robot = [CHR 0xF0, CHR 0x9F, CHR 0xA4, CHR 0x96]"

definition check_mark :: string where
  "check_mark = [CHR 0xE2, CHR 0x9C, CHR 0x85]"

definition bullet :: string where
  "bullet = [CHR 0xE2, CHR 0x80, CHR 0xA2]"

definition degree_sign :: string where
  "degree_sign = [CHR 0xC2, CHR 0xB0]"

definition newline :: string where
  "newline = [CHR 0x0A]"

text \<open>The reply when some risk matches the question.\<close>

definition part_reply :: "risk_event list \<Rightarrow> risk_event \<Rightarrow> ChatResponse" where
  "part_reply all_risks top_risk =
     (let part_name = py_title (underscores_to_spaces (part top_risk));
          reply = magnifier @ '' **'' @ part_name @ '' Analysis** '' @ em_dash @ '' At '' @
                  timestamp top_risk @ '', I detected a risk level of '' @
                  ''**'' @ str_int (risk top_risk) @ ''% ('' @ severity top_risk @ '')**.'' @
                  newline @ newline @ description top_risk;
          reply = (case angle top_risk of
                     None \<Rightarrow> reply
                   | Some a \<Rightarrow>
                       if a \<noteq> 0
                       then reply @ newline @ newline @ ''Measured angle deviation: **'' @
                            str_float1 a @ degree_sign @ ''**.''
                       else reply);
          related = filter (\<lambda>r. part r = part top_risk \<and> r \<noteq> top_risk) all_risks;
          reply = (if related \<noteq> []
                   then reply @ newline @ newline @ ''Additionally found '' @
                        str_int (int (length related)) @ '' other '' @ py_lower part_name @
                        '' event(s) in this session.''
                   else reply)
      in \<lparr>reply = reply, confidence = 92 / 100, relatedTimestamp = Some (timestamp top_risk)\<rparr>)"

text \<open>The reply to a question about the overall assessment.\<close>

definition overview_reply :: "analysis_done \<Rightarrow> error + ChatResponse" where
  "overview_reply d =
     (let all_risks = an_risks d;
          overall = an_overallRisk d;
          total_events = int (length all_risks);
          high_events = int (length (filter (\<lambda>r. severity r \<in> {''HIGH'', ''CRITICAL''})
                                       all_risks));
          reply = bar_chart @ '' **Overall Assessment** '' @ em_dash @
                  '' Session risk score: **'' @ str_int overall @ ''% ('' @
                  an_overallSeverity d @ '')**.'' @ newline @ newline @
                  ''Detected **'' @ str_int total_events @ '' risk events**, of which **'' @
                  str_int high_events @ ''** are high/critical severity.''
      in bind_res
           (if all_risks \<noteq> []
            then bind_res (py_max_by risk all_risks) (\<lambda>top_risk.
                   Inr (reply @ newline @ newline @ ''Highest risk: **'' @
                        py_title (underscores_to_spaces (part top_risk)) @ ''** at '' @
                        timestamp top_risk @ '' ('' @ str_int (risk top_risk) @ ''%).''))
            else Inr reply)
           (\<lambda>reply.
              let reply = (if an_suggestions d \<noteq> []
                           then reply @ newline @ newline @ ''**Top Recommendations:**'' @
                                newline @
                                py_join newline
                                  (map (\<lambda>s. bullet @ '' '' @ s) (take 3 (an_suggestions d)))
                           else reply)
              in Inr \<lparr>reply = reply, confidence = 93 / 100, relatedTimestamp = None\<rparr>))"

text \<open>The default reply, with the context of the session.\<close>

definition default_reply :: "analysis_done \<Rightarrow> error + ChatResponse" where
  "default_reply d =
     (let all_risks = an_risks d
      in bind_res
           (if all_risks \<noteq> []
            then bind_res (py_max_by risk all_risks) (\<lambda>top_risk.
                   Inr (robot @ '' I analyzed this session and found **'' @
                        str_int (int (length all_risks)) @ '' risk events**. '' @
                        ''The highest priority is **'' @ underscores_to_spaces (part top_risk) @
                        ''** at '' @ timestamp top_risk @ '' ('' @ str_int (risk top_risk) @
                        ''% risk).'' @ newline @ newline @
                        ''Ask me about any specific body part '' @ em_dash @
                        '' knee, hip, shoulder, back, or ankle!''))
            else Inr (check_mark @
                   '' No significant risks were detected in this session. '' @
                   ''The biomechanics look good! Keep up the great form.''))
           (\<lambda>reply. Inr \<lparr>reply = reply, confidence = 85 / 100, relatedTimestamp = None\<rparr>))"

definition chat_with_ai :: "store \<Rightarrow> string \<Rightarrow> ChatMessage \<Rightarrow> error + ChatResponse" where
  "chat_with_ai analyses video_id msg =
     (case map_of analyses video_id of
        Some (Done d) \<Rightarrow>
          (let text = py_lower (message msg);
               all_risks = an_risks d;
               matched_risks = filter (risk_matches text) all_risks
           in if matched_risks \<noteq> []
              then bind_res (py_max_by risk matched_risks) (\<lambda>top_risk. Inr (part_reply all_risks top_risk))
              else if is_substring ''overall'' text \<or> is_substring ''summary'' text \<or>
                      is_substring ''assessment'' text
              then overview_reply d
              else default_reply d)
      | _ \<Rightarrow>
          Inr \<lparr>reply = PROCESSING_REPLY, confidence = 5 / 10, relatedTimestamp = None\<rparr>)"


subsection \<open>\<open>get_player\<close>\<close>

text \<open>
  The dictionaries that \<open>get_player\<close> builds: the points of the risk history (\<open>rh_...\<close>),
  the past matches (\<open>pm_...\<close>), the injury zones (\<open>iz_...\<close>), the drills (\<open>dr_...\<close>) and
  the profile itself (\<open>pf_...\<close>).
\<close>

record risk_point =
  rh_date :: string
  rh_risk :: int
  rh_label :: string

record past_match =
  pm_date :: string
  pm_opponent :: string
  pm_riskScore :: int
  pm_status :: string
  pm_highlights :: string

record injury_zone =
  iz_part :: string
  iz_risk :: int
  iz_trend :: string

record drill =
  dr_id :: int
  dr_name :: string
  dr_description :: string
  dr_duration :: string
  dr_frequency :: string
  dr_targetArea :: string
  dr_difficulty :: string
  dr_riskReduction :: int

record player_profile =
  pf_playerId :: int
  pf_name :: string
  pf_sport :: string
  pf_team :: string
  pf_age :: int
  pf_position :: string
  pf_riskHistory :: "risk_point list"
  pf_pastMatches :: "past_match list"
  pf_drills :: "drill list"
  pf_injuryZones :: "injury_zone list"

text \<open>\<open>[a for a in analyses.values() if a.get("status") == "done"]\<close>\<close>

fun completed_of :: "store \<Rightarrow> analysis_done list" where
  "completed_of [] = []"
| "completed_of ((video_id, Done d) # rest) = d # completed_of rest"
| "completed_of ((video_id, a) # rest) = completed_of rest"

definition session_label :: "int \<Rightarrow> string" where
  "session_label i = ''Session '' @ str_int (i + 1)"

text \<open>The highlight of a session: its top risk, when it has risks.\<close>

definition top_risk_desc_of :: "analysis_done \<Rightarrow> error + string" where
  "top_risk_desc_of a =
     (if an_risks a \<noteq> []
      then bind_res (py_max_by risk (an_risks a)) (\<lambda>top_risk.
             Inr (py_title (underscores_to_spaces (part top_risk)) @ '' risk '' @
                  str_int (risk top_risk) @ ''%''))
      else Inr [])"

text \<open>\<open>injury_counts\<close>: the total risk and the count of each part, in insertion order.\<close>

definition count_injury ::
  "(string \<times> int \<times> int) list \<Rightarrow> risk_event \<Rightarrow> (string \<times> int \<times> int) list" where
  "count_injury injury_counts r =
     (let c = dict_get injury_counts (part r) (0, 0)
      in AList.update (part r) (fst c + risk r, snd c + 1) injury_counts)"

text \<open>
  The loop \<open>for i, a in enumerate(completed)\<close>, with its three accumulators.
\<close>

fun sessions_loop ::
  "int \<Rightarrow> risk_point list \<times> past_match list \<times> (string \<times> int \<times> int) list \<Rightarrow>
   analysis_done list \<Rightarrow>
   error + risk_point list \<times> past_match list \<times> (string \<times> int \<times> int) list" where
  "sessions_loop i acc [] = Inr acc"
| "sessions_loop i acc (a # rest) =
     (let risk_history = fst acc; past_matches = fst (snd acc); injury_counts = snd (snd acc);
          risk_history = risk_history @
            [\<lparr>rh_date = session_label i, rh_risk = an_overallRisk a, rh_label = session_label i\<rparr>]
      in bind_res (top_risk_desc_of a) (\<lambda>top_risk_desc.
           let past_matches = past_matches @
                 [\<lparr>pm_date = session_label i, pm_opponent = an_sport a,
                   pm_riskScore = an_overallRisk a, pm_status = ''Completed'',
                   pm_highlights =
                     (if top_risk_desc \<noteq> [] then top_risk_desc else ''Analysis complete'')\<rparr>];
               injury_counts = foldl count_injury injury_counts (an_risks a)
           in sessions_loop (i + 1) (risk_history, past_matches, injury_counts) rest))"

text \<open>The count of a part is at least one, so the floor division never raises.\<close>

definition zone_of :: "string \<times> int \<times> int \<Rightarrow> injury_zone" where
  "zone_of pc =
     (let avg = fst (snd pc) div snd (snd pc);
          trend = (if avg > 50 then ''increasing'' else if avg > 30 then ''stable''
                   else ''decreasing'')
      in \<lparr>iz_part = fst pc, iz_risk = avg, iz_trend = trend\<rparr>)"

definition has_zone :: "injury_zone list \<Rightarrow> string \<Rightarrow> bool" where
  "has_zone injury_zones p = list_ex (\<lambda>z. iz_part z = p) injury_zones"

definition drills_for :: "injury_zone list \<Rightarrow> drill list" where
  "drills_for injury_zones =
     (let drills = []; drill_id = 1;
          step1 = (if has_zone injury_zones ''knee''
            then (drills @ [\<lparr>dr_id = drill_id, dr_name = ''Single-Leg Squat Stabilizer'',
                    dr_description =
                      ''Strengthen VMO and glute medius to correct knee valgus pattern.'',
                    dr_duration = ''15 min'', dr_frequency = ''Daily'',
                    dr_targetArea = ''Knee'', dr_difficulty = ''Intermediate'',
                    dr_riskReduction = 23\<rparr>], drill_id + 1)
            else (drills, drill_id));
          drills = fst step1; drill_id = snd step1;
          step2 = (if has_zone injury_zones ''shoulder''
            then (drills @ [\<lparr>dr_id = drill_id, dr_name = ''Rotator Cuff Band Series'',
                    dr_description =
                      ''External/internal rotation with resistance band for shoulder stability.'',
                    dr_duration = ''10 min'', dr_frequency = ''Pre-session'',
                    dr_targetArea = ''Shoulder'', dr_difficulty = ''Beginner'',
                    dr_riskReduction = 15\<rparr>], drill_id + 1)
            else (drills, drill_id));
          drills = fst step2; drill_id = snd step2;
          step3 = (if has_zone injury_zones ''lower_back''
            then (drills @ [\<lparr>dr_id = drill_id, dr_name = ''Anti-Extension Core Circuit'',
                    dr_description =
                      ''Dead bugs, pallof press, and bird-dogs for lumbar stability.'',
                    dr_duration = ''20 min'', dr_frequency = ''3x/week'',
                    dr_targetArea = ''Lower Back'', dr_difficulty = ''Advanced'',
                    dr_riskReduction = 19\<rparr>], drill_id + 1)
            else (drills, drill_id));
          drills = fst step3; drill_id = snd step3;
          step4 = (if has_zone injury_zones ''hip''
            then (drills @ [\<lparr>dr_id = drill_id, dr_name = ''Hip Mobility & Activation'',
                    dr_description =
                      ''Banded hip circles, clamshells, and hip flexor stretches.'',
                    dr_duration = ''12 min'', dr_frequency = ''Daily'',
                    dr_targetArea = ''Hip'', dr_difficulty = ''Beginner'',
                    dr_riskReduction = 18\<rparr>], drill_id + 1)
            else (drills, drill_id))
      in fst step4)"

text \<open>\<open>xs[-10:]\<close>\<close>

definition last10 :: "'a list \<Rightarrow> 'a list" where
  "last10 xs = drop (length xs - 10) xs"

definition get_player :: "store \<Rightarrow> int \<Rightarrow> error + player_profile" where
  "get_player analyses player_id =
     (let completed = completed_of analyses
      in if completed = [] then
           Inr \<lparr>pf_playerId = player_id, pf_name = ''Athlete'', pf_sport = ''General'',
                pf_team = em_dash, pf_age = 0, pf_position = em_dash,
                pf_riskHistory = [], pf_pastMatches = [], pf_drills = [],
                pf_injuryZones = []\<rparr>
         else
           bind_res (sessions_loop 0 ([], [], []) completed) (\<lambda>acc.
             let risk_history = fst acc; past_matches = fst (snd acc);
                 injury_counts = snd (snd acc);
                 injury_zones = map zone_of injury_counts;
                 drills = drills_for injury_zones;
                 latest = last completed
             in Inr \<lparr>pf_playerId = player_id, pf_name = an_playerName latest,
                     pf_sport = an_sport latest, pf_team = em_dash, pf_age = 0,
                     pf_position = em_dash, pf_riskHistory = last10 risk_history,
                     pf_pastMatches = last10 past_matches, pf_drills = drills,
                     pf_injuryZones = injury_zones\<rparr>))"

subsection \<open>The biomechanical analysis engine of the backend\<close>

type_synonym point = "real \<times> real"

text \<open>
  \<open>np.clip(x, lo, hi)\<close>, \<open>np.degrees\<close> and \<open>math.degrees\<close>, the difference of two arrays
  of two coordinates, \<open>np.linalg.norm\<close> and \<open>np.dot\<close>.
\<close>

definition np_clip :: "real \<Rightarrow> real \<Rightarrow> real \<Rightarrow> real" where
  "np_clip x lo hi = min (max x lo) hi"

definition degrees :: "real \<Rightarrow> real" where
  "degrees x = x * (180 / pi)"

definition vsub :: "point \<Rightarrow> point \<Rightarrow> point" where
  "vsub u v = (fst u - fst v, snd u - snd v)"

definition np_norm :: "point \<Rightarrow> real" where
  "np_norm v = sqrt ((fst v)\<^sup>2 + (snd v)\<^sup>2)"

definition np_dot :: "point \<Rightarrow> point \<Rightarrow> real" where
  "np_dot u v = fst u * fst v + snd u * snd v"

text \<open>\<open>math.atan2(y, x)\<close>: the angle of the point \<open>(x, y)\<close>, in \<open>(-pi, pi]\<close>.\<close>

definition atan2 :: "real \<Rightarrow> real \<Rightarrow> real" where
  "atan2 y x =
     (if 0 < x then arctan (y / x)
      else if x < 0 then (if 0 \<le> y then arctan (y / x) + pi else arctan (y / x) - pi)
      else if 0 < y then pi / 2 else if y < 0 then - (pi / 2) else 0)"

definition calculate_angle :: "point \<Rightarrow> point \<Rightarrow> point \<Rightarrow> real" where
  "calculate_angle a b c =
     (let ba = vsub a b; bc = vsub c b;
          norm_ba = np_norm ba; norm_bc = np_norm bc
      in if norm_ba = 0 \<or> norm_bc = 0 then 180
         else let cosine = np_dot ba bc / (norm_ba * norm_bc)
              in degrees (arccos (np_clip cosine (- 1) 1)))"

definition trunk_lean_angle :: "point \<Rightarrow> point \<Rightarrow> real" where
  "trunk_lean_angle shoulder_mid hip_mid =
     (let dx = fst hip_mid - fst shoulder_mid;
          dy = snd hip_mid - snd shoulder_mid
      in if dy = 0 then 0 else \<bar>degrees (atan2 dx dy)\<bar>)"

definition is_visible :: "point \<Rightarrow> bool" where
  "is_visible p = (fst p > 0 \<and> snd p > 0)"

definition CONF_THRESH :: real where
  "CONF_THRESH = 5 / 10"

text \<open>
  The inner function \<open>kp\<close> of \<open>analyze_person\<close>. Indexing past the end of an array raises;
  \<open>and\<close> does not look at the keypoint when the confidence is too low.
\<close>

definition kp :: "point list \<Rightarrow> real list \<Rightarrow> nat \<Rightarrow> error + point option" where
  "kp person_kp person_conf idx =
     (if idx < length person_conf then
        (if person_conf ! idx > CONF_THRESH then
           (if idx < length person_kp then
              (if is_visible (person_kp ! idx) then Inr (Some (person_kp ! idx)) else Inr None)
            else Inl IndexError)
         else Inr None)
      else Inl IndexError)"

text \<open>
  The nine blocks of \<open>analyze_person\<close>. Each yields the entries that it adds to \<open>risks\<close>
  and to \<open>details\<close>; the blocks of the left and of the right side are the same code with
  other keys, and are written once here.
\<close>

definition knee_block ::
  "string \<Rightarrow> string \<Rightarrow> point option \<Rightarrow> point option \<Rightarrow> point option \<Rightarrow>
   (string \<times> int) list \<times> (string \<times> real) list" where
  "knee_block factor detail hip knee ankle =
     (case (hip, knee, ankle) of
        (Some h, Some k, Some a) \<Rightarrow>
          (let angle = calculate_angle h k a
           in ([(factor, if angle < 120 then 90 else if angle < 140 then 60
                         else if angle < 160 then 30 else 0)],
               [(detail, angle)]))
      | _ \<Rightarrow> ([], []))"

definition hip_block ::
  "string \<Rightarrow> string \<Rightarrow> point option \<Rightarrow> point option \<Rightarrow> point option \<Rightarrow>
   (string \<times> int) list \<times> (string \<times> real) list" where
  "hip_block factor detail shoulder hip knee =
     (case (shoulder, hip, knee) of
        (Some s, Some h, Some k) \<Rightarrow>
          (let angle = calculate_angle s h k
           in ([(factor, if angle < 100 then 80 else if angle < 130 then 45
                         else if angle < 150 then 20 else 0)],
               [(detail, angle)]))
      | _ \<Rightarrow> ([], []))"

definition trunk_block ::
  "point option \<Rightarrow> point option \<Rightarrow> point option \<Rightarrow> point option \<Rightarrow>
   (string \<times> int) list \<times> (string \<times> real) list" where
  "trunk_block l_shoulder r_shoulder l_hip r_hip =
     (case (l_shoulder, r_shoulder, l_hip, r_hip) of
        (Some ls, Some rs, Some lh, Some rh) \<Rightarrow>
          (let shoulder_mid = ((fst ls + fst rs) / 2, (snd ls + snd rs) / 2);
               hip_mid = ((fst lh + fst rh) / 2, (snd lh + snd rh) / 2);
               lean = trunk_lean_angle shoulder_mid hip_mid
           in ([(''Trunk'', if lean > 35 then 75 else if lean > 25 then 50
                            else if lean > 15 then 25 else 0)],
               [(''Trunk'', lean)]))
      | _ \<Rightarrow> ([], []))"

definition asym_block :: "string \<Rightarrow> point option \<Rightarrow> point option \<Rightarrow> (string \<times> int) list" where
  "asym_block factor left right =
     (case (left, right) of
        (Some l, Some r) \<Rightarrow>
          (let diff = \<bar>snd l - snd r\<bar>
           in [(factor, if diff > 40 then 70 else if diff > 25 then 40
                        else if diff > 15 then 20 else 0)])
      | _ \<Rightarrow> [])"

definition ankle_block :: "string \<Rightarrow> point option \<Rightarrow> point option \<Rightarrow> (string \<times> int) list" where
  "ankle_block factor knee ankle =
     (case (knee, ankle) of
        (Some k, Some a) \<Rightarrow>
          (let virtual_toe = (fst a + (fst a - fst k) * (3 / 10), snd a + 30);
               angle = calculate_angle k a virtual_toe
           in [(factor, if angle > 120 then 60 else if angle > 110 then 30 else 0)])
      | _ \<Rightarrow> [])"

definition WEIGHTS :: "(string \<times> real) list" where
  "WEIGHTS =
     [(''L_ACL'', 25 / 100), (''R_ACL'', 25 / 100),
      (''L_Hip'', 10 / 100), (''R_Hip'', 10 / 100),
      (''Trunk'', 12 / 100),
      (''Shoulder_Asym'', 5 / 100), (''Hip_Asym'', 5 / 100),
      (''L_Ankle'', 4 / 100), (''R_Ankle'', 4 / 100)]"

text \<open>
  \<open># Composite weighted score\<close>: the pairs of risk and weight of the keys of \<open>risks\<close>
  that are keys of \<open>weights\<close>, their two sums, and \<open>min(int(composite), 100)\<close>.
\<close>

definition weighted_pairs :: "(string \<times> real) list \<Rightarrow> (string \<times> int) list \<Rightarrow> (int \<times> real) list" where
  "weighted_pairs weights risks =
     List.map_filter
       (\<lambda>kr. case map_of weights (fst kr) of None \<Rightarrow> None | Some w \<Rightarrow> Some (snd kr, w))
       risks"

definition composite_score :: "(string \<times> real) list \<Rightarrow> (string \<times> int) list \<Rightarrow> int" where
  "composite_score weights risks =
     (let pairs = weighted_pairs weights risks;
          total_weight = sum_list (map snd pairs);
          composite = (if total_weight > 0
                       then sum_list (map (\<lambda>rw. of_int (fst rw) * snd rw) pairs) / total_weight
                       else 0)
      in min (py_int composite) 100)"

definition analyze_keypoints ::
  "point option \<Rightarrow> point option \<Rightarrow> point option \<Rightarrow> point option \<Rightarrow>
   point option \<Rightarrow> point option \<Rightarrow> point option \<Rightarrow> point option \<Rightarrow>
   (string \<times> int) list \<times> int \<times> (string \<times> real) list" where
  "analyze_keypoints l_shoulder r_shoulder l_hip r_hip l_knee r_knee l_ankle r_ankle =
     (let b1 = knee_block ''L_ACL'' ''L_Knee'' l_hip l_knee l_ankle;
          b2 = knee_block ''R_ACL'' ''R_Knee'' r_hip r_knee r_ankle;
          b3 = hip_block ''L_Hip'' ''L_Hip'' l_shoulder l_hip l_knee;
          b4 = hip_block ''R_Hip'' ''R_Hip'' r_shoulder r_hip r_knee;
          b5 = trunk_block l_shoulder r_shoulder l_hip r_hip;
          risks = fst b1 @ fst b2 @ fst b3 @ fst b4 @ fst b5 @
                  asym_block ''Shoulder_Asym'' l_shoulder r_shoulder @
                  asym_block ''Hip_Asym'' l_hip r_hip @
                  ankle_block ''L_Ankle'' l_knee l_ankle @
                  ankle_block ''R_Ankle'' r_knee r_ankle;
          details = snd b1 @ snd b2 @ snd b3 @ snd b4 @ snd b5
      in (risks, composite_score WEIGHTS risks, details))"

definition analyze_person ::
  "point list \<Rightarrow> real list \<Rightarrow> error + (string \<times> int) list \<times> int \<times> (string \<times> real) list" where
  "analyze_person person_kp person_conf =
     bind_res (kp person_kp person_conf 5) (\<lambda>l_shoulder.
     bind_res (kp person_kp person_conf 6) (\<lambda>r_shoulder.
     bind_res (kp person_kp person_conf 11) (\<lambda>l_hip.
     bind_res (kp person_kp person_conf 12) (\<lambda>r_hip.
     bind_res (kp person_kp person_conf 13) (\<lambda>l_knee.
     bind_res (kp person_kp person_conf 14) (\<lambda>r_knee.
     bind_res (kp person_kp person_conf 15) (\<lambda>l_ankle.
     bind_res (kp person_kp person_conf 16) (\<lambda>r_ankle.
       Inr (analyze_keypoints l_shoulder r_shoulder l_hip r_hip
              l_knee r_knee l_ankle r_ankle)))))))))"

subsection \<open>The risk engine of the console, \<open>live-webCam/app_realtime (1).py\<close>\<close>







subsection \<open>The angle at a vertex, in the words of the specification\<close>

text \<open>
  \<open>degrees(arccos(clamp(dot(A - B, C - B) / (|A - B| |C - B|), -1, 1)))\<close>, for the
  comparison with \<open>calculate_angle\<close>.
\<close>

definition angle_formula :: "point \<Rightarrow> point \<Rightarrow> point \<Rightarrow> real" where
  "angle_formula A B C =
     degrees (arccos (np_clip (np_dot (vsub A B) (vsub C B) /
                               (np_norm (vsub A B) * np_norm (vsub C B))) (- 1) 1))"

subsection \<open>Usable keypoints and the tables of the specification\<close>

text \<open>
  A keypoint is usable when it is there, its confidence exceeds the threshold 0.5 and both
  of its coordinates are positive.
\<close>

definition usable :: "point list \<Rightarrow> real list \<Rightarrow> nat \<Rightarrow> bool" where
  "usable person_kp person_conf idx =
     (idx < length person_kp \<and> idx < length person_conf \<and> person_conf ! idx > 5 / 10 \<and>
      fst (person_kp ! idx) > 0 \<and> snd (person_kp ! idx) > 0)"

text \<open>The keypoint at an index when it is usable.\<close>

definition usable_point :: "point list \<Rightarrow> real list \<Rightarrow> nat \<Rightarrow> point option" where
  "usable_point person_kp person_conf idx =
     (if usable person_kp person_conf idx then Some (person_kp ! idx) else None)"

text \<open>The risk mapping of the knee angle, as the table of the specification has it.\<close>

definition L_ACL_step :: "real \<Rightarrow> int" where
  "L_ACL_step knee_angle =
     (if knee_angle < 120 then 90 else if knee_angle < 140 then 60
      else if knee_angle < 160 then 30 else 0)"




subsection \<open>Two poses\<close>


definition upright_conf :: "real list" where
  "upright_conf =
     [0, 0, 0, 0, 0, 9 / 10, 9 / 10, 0, 0, 0, 0, 9 / 10, 9 / 10, 9 / 10, 9 / 10, 9 / 10, 9 / 10]"

text \<open>The same person with the left ankle moved to a right angle at the left knee.\<close>

definition squat_kp :: "point list" where
  "squat_kp =
     [(0, 0), (0, 0), (0, 0), (0, 0), (0, 0), (100, 100), (200, 160), (0, 0), (0, 0), (0, 0),
      (0, 0), (100, 200), (200, 200), (100, 300), (200, 300), (200, 300), (200, 400)]"



subsection \<open>The factors that the console shares with the backend\<close>




section \<open>Properties\<close>

subsection \<open>Event detection keeps its invariants\<close>

lemma make_event_Inr:
  "fps \<noteq> 0 \<Longrightarrow> \<exists>e. make_event fps factor state = Inr e \<and> risk e = peak_risk state
      \<and> frame e = peak_frame state \<and> severity e = risk_severity (peak_risk state)"
  by (simp add: make_event_def frames_to_timestamp_def bind_res_def Let_def)

lemma states_ok_update:
  "states_ok fss \<Longrightarrow> (active s \<longrightarrow> peak_risk s \<ge> 30) \<Longrightarrow> states_ok (AList.update k s fss)"
  by (induction fss) (auto simp: states_ok_def)

lemma states_ok_get:
  "states_ok fss \<Longrightarrow> active (dict_get fss k initial_state) \<Longrightarrow> peak_risk (dict_get fss k initial_state) \<ge> 30"
  by (induction fss) (auto simp: states_ok_def dict_get_def initial_state_def split: if_splits)

lemma track_factor_ok:
  assumes "fps \<noteq> 0" "states_ok (fst acc)" "events_ok (snd acc)"
  shows "\<exists>acc'. track_factor fps n det acc fr = Inr acc' \<and> states_ok (fst acc') \<and> events_ok (snd acc')"
proof -
  let ?st = "dict_get (fst acc) (fst fr) initial_state"
  have pk: "active ?st \<Longrightarrow> peak_risk ?st \<ge> 30" using assms(2) by (rule states_ok_get)
  obtain e where e: "make_event fps (fst fr) ?st = Inr e" "risk e = peak_risk ?st"
      "severity e = risk_severity (peak_risk ?st)"
    using make_event_Inr[OF assms(1)] by blast
  show ?thesis
    using assms(2,3) pk e
    by (auto simp: track_factor_def Let_def bind_res_def events_ok_def intro!: states_ok_update)
qed

lemma track_factors_ok:
  "fps \<noteq> 0 \<Longrightarrow> states_ok (fst acc) \<Longrightarrow> events_ok (snd acc) \<Longrightarrow>
   \<exists>acc'. track_factors fps n det acc frs = Inr acc' \<and> states_ok (fst acc') \<and> events_ok (snd acc')"
proof (induction frs arbitrary: acc)
  case Nil
  then show ?case by simp
next
  case (Cons fr frs)
  from track_factor_ok[OF Cons.prems, of n det fr]
  obtain a where a: "track_factor fps n det acc fr = Inr a" "states_ok (fst a)" "events_ok (snd a)"
    by blast
  from Cons.IH[OF Cons.prems(1) a(2,3)] a(1) show ?case by (simp add: bind_res_def)
qed

lemma detect_frames_ok:
  "fps \<noteq> 0 \<Longrightarrow> states_ok (fst acc) \<Longrightarrow> events_ok (snd acc) \<Longrightarrow>
   \<exists>n' acc'. detect_frames fps n acc frames = Inr (n', acc') \<and> states_ok (fst acc') \<and> events_ok (snd acc')"
proof (induction frames arbitrary: acc n)
  case Nil
  then show ?case by simp
next
  case (Cons fr frs)
  from track_factors_ok[OF Cons.prems, of "n + 1" "snd fr" "fst fr"]
  obtain a where a: "track_factors fps (n + 1) (snd fr) acc (fst fr) = Inr a" "states_ok (fst a)" "events_ok (snd a)"
    by blast
  from Cons.IH[OF Cons.prems(1) a(2,3), of "n + 1"] a(1) show ?case by (simp add: bind_res_def)
qed

lemma flush_events_ok:
  "fps \<noteq> 0 \<Longrightarrow> events_ok evs \<Longrightarrow> \<exists>evs'. flush_events fps evs fss = Inr evs' \<and> events_ok evs'"
proof (induction fss arbitrary: evs)
  case Nil
  then show ?case by simp
next
  case (Cons fs fss)
  show ?case
  proof (cases "active (snd fs) \<and> peak_risk (snd fs) \<ge> 30")
    case True
    obtain e where e: "make_event fps (fst fs) (snd fs) = Inr e" "risk e = peak_risk (snd fs)"
      "severity e = risk_severity (peak_risk (snd fs))"
      using make_event_Inr[OF Cons.prems(1)] by blast
    have "events_ok (evs @ [e])" using Cons.prems(2) e True by (simp add: events_ok_def)
    from Cons.IH[OF Cons.prems(1) this] True e(1) show ?thesis by (simp add: bind_res_def)
  next
    case False
    with Cons.IH[OF Cons.prems] show ?thesis by auto
  qed
qed

lemma detect_events_ok:
  assumes "fps \<noteq> 0"
  shows "\<exists>evs. detect_events fps frames = Inr evs \<and> events_ok evs"
proof -
  from detect_frames_ok[OF assms, of "([], [])" 0 frames]
  obtain n' acc' where a: "detect_frames fps 0 ([], []) frames = Inr (n', acc')" "events_ok (snd acc')"
    by (auto simp: states_ok_def events_ok_def)
  from flush_events_ok[OF assms a(2)] a(1) show ?thesis
    by (simp add: detect_events_def bind_res_def)
qed

text \<open>
  Claim C10. Whatever the frames of a video are, event detection returns (the frame rate
  being non-zero, as \<open>process_video\<close> ensures), and every event it emits, on deactivation
  or in the final flush, has a risk of at least 30; so its severity label is never
  \<open>LOW\<close>: it is \<open>MEDIUM\<close>, \<open>HIGH\<close> or \<open>CRITICAL\<close>.
\<close>

theorem emitted_events_at_least_30:
  "fps \<noteq> 0 \<Longrightarrow>
   \<exists>evs. detect_events fps frames = Inr evs \<and>
     (\<forall>e \<in> set evs. risk e \<ge> 30 \<and> severity e \<noteq> ''LOW'' \<and>
        severity e \<in> {''MEDIUM'', ''HIGH'', ''CRITICAL''})"
proof -
  assume "fps \<noteq> 0"
  from detect_events_ok[OF this] obtain evs where
    e: "detect_events fps frames = Inr evs" "events_ok evs" by blast
  have "risk e \<ge> 30 \<and> severity e \<noteq> ''LOW'' \<and> severity e \<in> {''MEDIUM'', ''HIGH'', ''CRITICAL''}"
    if "e \<in> set evs" for e
    using e(2) that by (auto simp: events_ok_def list_all_iff risk_severity_def)
  with e(1) show ?thesis by blast
qed

theorem emitted_events_at_least_30_witness:
  "(30::real) \<noteq> 0 \<and>
   (\<exists>evs. detect_events 30 [([(''Trunk'', 50)], []), ([(''Trunk'', 0)], [])] = Inr evs \<and>
     (\<forall>e \<in> set evs. risk e \<ge> 30 \<and> severity e \<noteq> ''LOW'' \<and>
        severity e \<in> {''MEDIUM'', ''HIGH'', ''CRITICAL''}))"
  using emitted_events_at_least_30 [of 30 "[([(''Trunk'', 50)], []), ([(''Trunk'', 0)], [])]"]
  by simp

subsection \<open>The state machine of one factor\<close>













subsection \<open>Deduplication\<close>

lemma dedup_loop_index:
  "dedup_loop seen unique_events es = unique_events @
     map (\<lambda>i. es ! i)
       (filter (\<lambda>i. (timestamp (es ! i), part (es ! i)) \<notin> seen \<and>
                     (\<forall>j < i. (timestamp (es ! j), part (es ! j)) \<noteq> (timestamp (es ! i), part (es ! i))))
          [0..<length es])"
proof (induction es arbitrary: seen unique_events)
  case Nil
  then show ?case by simp
next
  case (Cons e es)
  have upt: "[0..<length (e # es)] = 0 # map Suc [0..<length es]"
    by (simp add: upt_conv_Cons map_Suc_upt del: upt_Suc)
  show ?case
    unfolding upt
    apply (simp add: Cons.IH Let_def filter_map comp_def All_less_Suc2)
    apply (intro conjI impI arg_cong[of _ _ "map ((!) es)"] filter_cong refl)
     apply auto
    done
qed

lemma deduplicate_first_occurrences:
  "deduplicate evs = first_occurrences event_key (sort_key (\<lambda>x. - risk x) evs)"
  by (simp add: deduplicate_def dedup_loop_index first_occurrences_def event_key_def)

lemma sort_desc_risk:
  "sorted_wrt (\<lambda>a b. risk b \<le> risk a) (sort_key (\<lambda>x. - risk x) evs)"
proof -
  have "sorted (map (\<lambda>x. - risk x) (sort_key (\<lambda>x. - risk x) evs))" by simp
  then show ?thesis by (simp add: sorted_map)
qed

text \<open>
  Claim C3. Deduplication sorts the events by descending risk (a stable sort, so a
  permutation of the input in which no event precedes one of higher risk) and keeps of the
  sorted list exactly the first occurrence of each (timestamp, body part) pair. Of two
  events at \<open>0:05\<close> on the knee with risks 40 and 70, in either order, the one that
  survives is the event of risk 70.
\<close>

theorem dedup_keeps_highest:
  "deduplicate evs = first_occurrences event_key (sort_key (\<lambda>x. - risk x) evs) \<and>
   sorted_wrt (\<lambda>a b. risk b \<le> risk a) (sort_key (\<lambda>x. - risk x) evs) \<and>
   mset (sort_key (\<lambda>x. - risk x) evs) = mset evs \<and>
   (\<forall>e1 e2. timestamp e1 = ''0:05'' \<and> part e1 = ''knee'' \<and> risk e1 = 40 \<and>
            timestamp e2 = ''0:05'' \<and> part e2 = ''knee'' \<and> risk e2 = 70 \<longrightarrow>
      deduplicate [e1, e2] = [e2] \<and> deduplicate [e2, e1] = [e2])"
proof (intro conjI allI impI)
  show "deduplicate evs = first_occurrences event_key (sort_key (\<lambda>x. - risk x) evs)"
    by (rule deduplicate_first_occurrences)
  show "sorted_wrt (\<lambda>a b. risk b \<le> risk a) (sort_key (\<lambda>x. - risk x) evs)"
    by (rule sort_desc_risk)
  show "mset (sort_key (\<lambda>x. - risk x) evs) = mset evs" by simp
next
  fix e1 e2 :: risk_event
  assume a: "timestamp e1 = ''0:05'' \<and> part e1 = ''knee'' \<and> risk e1 = 40 \<and>
            timestamp e2 = ''0:05'' \<and> part e2 = ''knee'' \<and> risk e2 = 70"
  then show "deduplicate [e1, e2] = [e2]" by (simp add: deduplicate_def Let_def)
  from a show "deduplicate [e2, e1] = [e2]" by (simp add: deduplicate_def Let_def)
qed

theorem dedup_keeps_highest_witness:
  "(timestamp (knee_event 40) = ''0:05'' \<and> part (knee_event 40) = ''knee'' \<and>
    risk (knee_event 40) = 40 \<and> timestamp (knee_event 70) = ''0:05'' \<and>
    part (knee_event 70) = ''knee'' \<and> risk (knee_event 70) = 70) \<and>
   deduplicate [knee_event 40, knee_event 70] = [knee_event 70] \<and>
   deduplicate [knee_event 70, knee_event 40] = [knee_event 70]"
proof -
  have k: "timestamp (knee_event 40) = ''0:05'' \<and> part (knee_event 40) = ''knee'' \<and>
    risk (knee_event 40) = 40 \<and> timestamp (knee_event 70) = ''0:05'' \<and>
    part (knee_event 70) = ''knee'' \<and> risk (knee_event 70) = 70"
    by (simp add: knee_event_def)
  from dedup_keeps_highest [of "[]"]
  have "\<forall>e1 e2. timestamp e1 = ''0:05'' \<and> part e1 = ''knee'' \<and> risk e1 = 40 \<and>
            timestamp e2 = ''0:05'' \<and> part e2 = ''knee'' \<and> risk e2 = 70 \<longrightarrow>
      deduplicate [e1, e2] = [e2] \<and> deduplicate [e2, e1] = [e2]"
    by blast
  with k show ?thesis by blast
qed

subsection \<open>Suggestions\<close>

lemma generate_suggestions_eq:
  "generate_suggestions events avg_risk =
     (if per_part_suggestions events @ risk_band_suggestion avg_risk = [] then [SUGGEST_GOOD]
      else per_part_suggestions events @ risk_band_suggestion avg_risk)"
  by (simp add: generate_suggestions_def per_part_suggestions_def risk_band_suggestion_def
      PART_CATALOG_def Let_def)

lemma suggestion_texts_distinct:
  "distinct [SUGGEST_KNEE, SUGGEST_HIP, SUGGEST_LOWER_BACK, SUGGEST_SHOULDER, SUGGEST_ANKLE,
             SUGGEST_HIGH, SUGGEST_MODERATE, SUGGEST_GOOD]"
  by (simp add: SUGGEST_KNEE_def SUGGEST_HIP_def SUGGEST_LOWER_BACK_def SUGGEST_SHOULDER_def
      SUGGEST_ANKLE_def SUGGEST_HIGH_def SUGGEST_MODERATE_def SUGGEST_GOOD_def)

lemma per_part_subset:
  "set (per_part_suggestions events) \<subseteq>
     {SUGGEST_KNEE, SUGGEST_HIP, SUGGEST_LOWER_BACK, SUGGEST_SHOULDER, SUGGEST_ANKLE}"
  by (auto simp: per_part_suggestions_def PART_CATALOG_def)

text \<open>
  Claim C7. The suggestions are the per-part suggestions in the catalog order knee, hip,
  lower back, shoulder, ankle, filtered to the parts present among the events, followed by
  at most one risk-band suggestion: the one for a mean above 60 exactly when the mean is
  above 60, the one for a mean above 40 exactly when the mean is above 40 and not above 60.
  When that list is empty, and only then, the result is the single positive suggestion.
\<close>

theorem suggestions_order_and_bands:
  "generate_suggestions events avg_risk =
     (if per_part_suggestions events @ risk_band_suggestion avg_risk = [] then [SUGGEST_GOOD]
      else per_part_suggestions events @ risk_band_suggestion avg_risk) \<and>
   length (risk_band_suggestion avg_risk) \<le> 1 \<and>
   (SUGGEST_HIGH \<in> set (generate_suggestions events avg_risk) \<longleftrightarrow> avg_risk > 60) \<and>
   (SUGGEST_MODERATE \<in> set (generate_suggestions events avg_risk) \<longleftrightarrow>
      avg_risk > 40 \<and> \<not> avg_risk > 60) \<and>
   (SUGGEST_GOOD \<in> set (generate_suggestions events avg_risk) \<longleftrightarrow>
      per_part_suggestions events = [] \<and> \<not> avg_risk > 40)"
proof -
  have d: "distinct [SUGGEST_KNEE, SUGGEST_HIP, SUGGEST_LOWER_BACK, SUGGEST_SHOULDER,
             SUGGEST_ANKLE, SUGGEST_HIGH, SUGGEST_MODERATE, SUGGEST_GOOD]"
    by (rule suggestion_texts_distinct)
  have p: "SUGGEST_HIGH \<notin> set (per_part_suggestions events)"
      "SUGGEST_MODERATE \<notin> set (per_part_suggestions events)"
      "SUGGEST_GOOD \<notin> set (per_part_suggestions events)"
    using per_part_subset[of events] d by auto
  show ?thesis
    unfolding generate_suggestions_eq using p d
    by (auto simp: risk_band_suggestion_def)
qed

theorem suggestions_order_and_bands_witness:
  "generate_suggestions [knee_event 70, (knee_event 45)\<lparr>part := ''shoulder''\<rparr>] 65 =
     [SUGGEST_KNEE, SUGGEST_SHOULDER, SUGGEST_HIGH] \<and>
   SUGGEST_MODERATE \<notin> set (generate_suggestions
     [knee_event 70, (knee_event 45)\<lparr>part := ''shoulder''\<rparr>] 65) \<and>
   generate_suggestions [] 0 = [SUGGEST_GOOD]"
proof -
  have p: "per_part_suggestions [knee_event 70, (knee_event 45)\<lparr>part := ''shoulder''\<rparr>] =
      [SUGGEST_KNEE, SUGGEST_SHOULDER]" "per_part_suggestions [] = []"
    by (simp_all add: per_part_suggestions_def PART_CATALOG_def knee_event_def)
  have b: "risk_band_suggestion 65 = [SUGGEST_HIGH]" "risk_band_suggestion 0 = []"
    by (simp_all add: risk_band_suggestion_def)
  note T = suggestions_order_and_bands
      [of "[knee_event 70, (knee_event 45)\<lparr>part := ''shoulder''\<rparr>]" 65]
  have 1: "generate_suggestions [knee_event 70, (knee_event 45)\<lparr>part := ''shoulder''\<rparr>] 65 =
     [SUGGEST_KNEE, SUGGEST_SHOULDER, SUGGEST_HIGH]"
    using T [THEN conjunct1] by (simp add: p b)
  have 2: "SUGGEST_MODERATE \<notin> set (generate_suggestions
     [knee_event 70, (knee_event 45)\<lparr>part := ''shoulder''\<rparr>] 65)"
    using T [THEN conjunct2, THEN conjunct2, THEN conjunct2, THEN conjunct1] by simp
  have 3: "generate_suggestions [] 0 = [SUGGEST_GOOD]"
    using suggestions_order_and_bands [of "[]" 0, THEN conjunct1] by (simp add: p b)
  from 1 2 3 show ?thesis by blast
qed

subsection \<open>The chat responder and the player profile\<close>

lemma py_max_by_Inr: "xs \<noteq> [] \<Longrightarrow> \<exists>y. py_max_by key xs = Inr y"
  by (cases xs) (simp_all add: py_max_by_def)

lemma overview_reply_Inr: "\<exists>r. overview_reply d = Inr r"
proof (cases "an_risks d = []")
  case True
  then show ?thesis by (simp add: overview_reply_def bind_res_def Let_def)
next
  case False
  from py_max_by_Inr[OF this, of risk] obtain y where "py_max_by risk (an_risks d) = Inr y" ..
  with False show ?thesis by (simp add: overview_reply_def bind_res_def Let_def)
qed

lemma default_reply_Inr: "\<exists>r. default_reply d = Inr r"
proof (cases "an_risks d = []")
  case True
  then show ?thesis by (simp add: default_reply_def bind_res_def Let_def)
next
  case False
  from py_max_by_Inr[OF this, of risk] obtain y where "py_max_by risk (an_risks d) = Inr y" ..
  with False show ?thesis by (simp add: default_reply_def bind_res_def Let_def)
qed

lemma chat_with_ai_Inr: "\<exists>r. chat_with_ai analyses video_id msg = Inr r"
proof (cases "map_of analyses video_id")
  case None
  then show ?thesis by (simp add: chat_with_ai_def)
next
  case (Some a)
  show ?thesis
  proof (cases a)
    case (Done d)
    let ?m = "filter (risk_matches (py_lower (message msg))) (an_risks d)"
    show ?thesis
    proof (cases "?m = []")
      case True
      with Some Done overview_reply_Inr[of d] default_reply_Inr[of d] show ?thesis
        by (auto simp: chat_with_ai_def Let_def)
    next
      case False
      from py_max_by_Inr[OF this, of risk] obtain y where "py_max_by risk ?m = Inr y" ..
      with Some Done False show ?thesis by (simp add: chat_with_ai_def Let_def bind_res_def)
    qed
  qed (use Some in \<open>simp_all add: chat_with_ai_def\<close>)
qed

text \<open>
  Claim C8. For every store, video id and message, \<open>chat_with_ai\<close> returns a response and
  raises nothing (each \<open>max\<close> is taken of a list that its guard has found non-empty). When
  the store has no analysis under the id, or has one whose status is not \<open>done\<close>, the
  response is the fixed "still processing" reply with confidence 0.5 and no related
  timestamp, whatever the message says.
\<close>

theorem chat_not_done_processing_reply:
  "(\<exists>r. chat_with_ai analyses video_id msg = Inr r) \<and>
   (map_of analyses video_id = None \<or>
    (\<exists>a. map_of analyses video_id = Some a \<and> status a \<noteq> ''done'') \<longrightarrow>
    chat_with_ai analyses video_id msg =
      Inr \<lparr>reply = PROCESSING_REPLY, confidence = 5 / 10, relatedTimestamp = None\<rparr>)"
proof (intro conjI impI)
  show "\<exists>r. chat_with_ai analyses video_id msg = Inr r" by (rule chat_with_ai_Inr)
next
  assume "map_of analyses video_id = None \<or>
    (\<exists>a. map_of analyses video_id = Some a \<and> status a \<noteq> ''done'')"
  then show "chat_with_ai analyses video_id msg =
      Inr \<lparr>reply = PROCESSING_REPLY, confidence = 5 / 10, relatedTimestamp = None\<rparr>"
  proof
    assume "map_of analyses video_id = None"
    then show ?thesis by (simp add: chat_with_ai_def)
  next
    assume "\<exists>a. map_of analyses video_id = Some a \<and> status a \<noteq> ''done''"
    then obtain a where a: "map_of analyses video_id = Some a" "status a \<noteq> ''done''" by blast
    then show ?thesis by (cases a) (simp_all add: chat_with_ai_def)
  qed
qed

theorem chat_not_done_processing_reply_witness:
  "(map_of [(''ab12cd34'', Processing ''ab12cd34'')] ''ab12cd34'' =
      Some (Processing ''ab12cd34'') \<and> status (Processing ''ab12cd34'') \<noteq> ''done'') \<and>
   chat_with_ai [(''ab12cd34'', Processing ''ab12cd34'')] ''ab12cd34''
     \<lparr>message = ''How is my knee?'', videoId = None\<rparr> =
     Inr \<lparr>reply = PROCESSING_REPLY, confidence = 5 / 10, relatedTimestamp = None\<rparr> \<and>
   chat_with_ai [] ''ab12cd34'' \<lparr>message = ''overall'', videoId = None\<rparr> =
     Inr \<lparr>reply = PROCESSING_REPLY, confidence = 5 / 10, relatedTimestamp = None\<rparr>"
proof -
  have h: "map_of [(''ab12cd34'', Processing ''ab12cd34'')] ''ab12cd34'' =
      Some (Processing ''ab12cd34'') \<and> status (Processing ''ab12cd34'') \<noteq> ''done''"
    by simp
  have h': "map_of ([] :: store) ''ab12cd34'' = None" by simp
  from chat_not_done_processing_reply
    [of "[(''ab12cd34'', Processing ''ab12cd34'')]" "''ab12cd34''"
        "\<lparr>message = ''How is my knee?'', videoId = None\<rparr>"] h
  have 1: "chat_with_ai [(''ab12cd34'', Processing ''ab12cd34'')] ''ab12cd34''
     \<lparr>message = ''How is my knee?'', videoId = None\<rparr> =
     Inr \<lparr>reply = PROCESSING_REPLY, confidence = 5 / 10, relatedTimestamp = None\<rparr>"
    by blast
  from chat_not_done_processing_reply
    [of "[]" "''ab12cd34''" "\<lparr>message = ''overall'', videoId = None\<rparr>"] h'
  have 2: "chat_with_ai [] ''ab12cd34'' \<lparr>message = ''overall'', videoId = None\<rparr> =
     Inr \<lparr>reply = PROCESSING_REPLY, confidence = 5 / 10, relatedTimestamp = None\<rparr>"
    by blast
  from h 1 2 show ?thesis by blast
qed

lemma completed_of_no_done:
  "(\<forall>a \<in> snd ` set analyses. status a \<noteq> ''done'') \<Longrightarrow> completed_of analyses = []"
  by (induction analyses rule: completed_of.induct) auto

text \<open>
  Claim C9. When no analysis of the store has status \<open>done\<close>, \<open>get_player\<close> returns, for
  any player id, the profile with name \<open>Athlete\<close>, sport \<open>General\<close>, a dash for team and
  position, age 0, and empty risk history, past matches, drills and injury zones.
\<close>

theorem player_profile_without_done:
  "\<forall>a \<in> snd ` set analyses. status a \<noteq> ''done'' \<Longrightarrow>
   get_player analyses player_id =
     Inr \<lparr>pf_playerId = player_id, pf_name = ''Athlete'', pf_sport = ''General'',
          pf_team = em_dash, pf_age = 0, pf_position = em_dash,
          pf_riskHistory = [], pf_pastMatches = [], pf_drills = [], pf_injuryZones = []\<rparr>"
  by (simp add: get_player_def completed_of_no_done)

theorem player_profile_without_done_witness:
  "(status (Processing ''ab12cd34'') \<noteq> ''done'' \<and>
    status (Failed ''0f0f0f0f'' ''Could not open video file'') \<noteq> ''done'') \<and>
   get_player [(''ab12cd34'', Processing ''ab12cd34''),
               (''0f0f0f0f'', Failed ''0f0f0f0f'' ''Could not open video file'')] 7 =
     Inr \<lparr>pf_playerId = 7, pf_name = ''Athlete'', pf_sport = ''General'',
          pf_team = em_dash, pf_age = 0, pf_position = em_dash,
          pf_riskHistory = [], pf_pastMatches = [], pf_drills = [], pf_injuryZones = []\<rparr>"
proof -
  have h: "\<forall>a \<in> snd ` set [(''ab12cd34'', Processing ''ab12cd34''),
                      (''0f0f0f0f'', Failed ''0f0f0f0f'' ''Could not open video file'')].
      status a \<noteq> ''done''"
    by simp
  from player_profile_without_done [OF h, of 7] show ?thesis by simp
qed

subsection \<open>Angles\<close>

lemma np_norm_zero_iff: "np_norm v = 0 \<longleftrightarrow> v = (0, 0)"
  by (cases v) (simp add: np_norm_def sum_power2_eq_zero_iff)

lemma vsub_zero_iff: "vsub a b = (0, 0) \<longleftrightarrow> a = b"
  by (cases a, cases b) (simp add: vsub_def)

text \<open>
  Claim C5. \<open>calculate_angle(A, B, C)\<close> is 180 when an arm has zero length (\<open>A = B\<close> or
  \<open>C = B\<close>) and otherwise the value of the formula of the specification, the arc cosine in
  degrees of the clamped normalised dot product. The points \<open>(0,1)\<close>, \<open>(0,0)\<close>, \<open>(0,-1)\<close>
  give 180 and the points \<open>(1,0)\<close>, \<open>(0,0)\<close>, \<open>(0,1)\<close> give 90.
\<close>

theorem calculate_angle_formula:
  "calculate_angle A B C = (if A = B \<or> C = B then 180 else angle_formula A B C) \<and>
   calculate_angle (0, 1) (0, 0) (0, - 1) = 180 \<and>
   calculate_angle (1, 0) (0, 0) (0, 1) = 90 \<and>
   calculate_angle B B C = 180 \<and> calculate_angle A B B = 180"
proof -
  have gen: "calculate_angle A B C = (if A = B \<or> C = B then 180 else angle_formula A B C)"
    for A B C
    by (simp add: calculate_angle_def angle_formula_def Let_def np_norm_zero_iff vsub_zero_iff)
  have 1: "calculate_angle (0, 1) (0, 0) (0, - 1) = 180"
    by (simp add: calculate_angle_def np_norm_def np_dot_def np_clip_def degrees_def vsub_def
        Let_def)
  have 2: "calculate_angle (1, 0) (0, 0) (0, 1) = 90"
    by (simp add: calculate_angle_def np_norm_def np_dot_def np_clip_def degrees_def vsub_def
        Let_def)
  show ?thesis using gen[of A B C] 1 2 gen[of B B C] gen[of A B B] by simp
qed

theorem calculate_angle_formula_witness:
  "calculate_angle (3, 4) (3, 4) (7, 9) = 180 \<and> calculate_angle (3, 7) (3, 4) (3, 2) = 180 \<and>
   calculate_angle (5, 4) (3, 4) (3, 9) = 90"
proof -
  have a: "angle_formula (3, 7) (3, 4) (3, 2) = 180"
    by (simp add: angle_formula_def np_norm_def np_dot_def np_clip_def degrees_def vsub_def)
  have b: "angle_formula (5, 4) (3, 4) (3, 9) = 90"
    by (simp add: angle_formula_def np_norm_def np_dot_def np_clip_def degrees_def vsub_def)
  show ?thesis
    using calculate_angle_formula [of "(3, 4)" "(3, 4)" "(7, 9)", THEN conjunct1]
      calculate_angle_formula [of "(3, 7)" "(3, 4)" "(3, 2)", THEN conjunct1]
      calculate_angle_formula [of "(5, 4)" "(3, 4)" "(3, 9)", THEN conjunct1]
    by (simp add: a b)
qed

subsection \<open>\<open>analyze_person\<close>\<close>

lemma kp_usable_point:
  "idx < length person_kp \<Longrightarrow> idx < length person_conf \<Longrightarrow>
   kp person_kp person_conf idx = Inr (usable_point person_kp person_conf idx)"
  by (simp add: kp_def usable_point_def usable_def CONF_THRESH_def is_visible_def)

lemma analyze_person_keypoints:
  assumes "17 \<le> length person_kp" "17 \<le> length person_conf"
  shows "analyze_person person_kp person_conf =
     Inr (analyze_keypoints
            (usable_point person_kp person_conf 5) (usable_point person_kp person_conf 6)
            (usable_point person_kp person_conf 11) (usable_point person_kp person_conf 12)
            (usable_point person_kp person_conf 13) (usable_point person_kp person_conf 14)
            (usable_point person_kp person_conf 15) (usable_point person_kp person_conf 16))"
  using assms by (simp add: analyze_person_def kp_usable_point bind_res_def)

text \<open>
  Claim C4. For a pose of 17 keypoints whose left hip, knee and ankle are usable,
  \<open>analyze_person\<close> returns, and its risk for \<open>L_ACL\<close> is the step function of the angle at
  the left knee: 90 below 120 degrees, 60 below 140, 30 below 160, else 0. Each band
  excludes its upper bound: the angles 119, 120, 139, 140, 159, 160 give 90, 60, 60, 30, 30, 0.
\<close>

theorem L_ACL_step_function:
  assumes "17 \<le> length person_kp" and "17 \<le> length person_conf"
    and "usable person_kp person_conf 11" and "usable person_kp person_conf 13"
    and "usable person_kp person_conf 15"
  shows "(\<exists>risks composite details.
            analyze_person person_kp person_conf = Inr (risks, composite, details) \<and>
            map_of risks ''L_ACL'' =
              Some (L_ACL_step (calculate_angle (person_kp ! 11) (person_kp ! 13)
                                  (person_kp ! 15)))) \<and>
         L_ACL_step 119 = 90 \<and> L_ACL_step 120 = 60 \<and> L_ACL_step 139 = 60 \<and>
         L_ACL_step 140 = 30 \<and> L_ACL_step 159 = 30 \<and> L_ACL_step 160 = 0"
proof -
  have "map_of (fst (analyze_keypoints
            (usable_point person_kp person_conf 5) (usable_point person_kp person_conf 6)
            (usable_point person_kp person_conf 11) (usable_point person_kp person_conf 12)
            (usable_point person_kp person_conf 13) (usable_point person_kp person_conf 14)
            (usable_point person_kp person_conf 15) (usable_point person_kp person_conf 16)))
          ''L_ACL'' =
        Some (L_ACL_step (calculate_angle (person_kp ! 11) (person_kp ! 13) (person_kp ! 15)))"
    using assms(3,4,5)
    by (simp add: analyze_keypoints_def knee_block_def usable_point_def L_ACL_step_def Let_def)
  then show ?thesis
    unfolding analyze_person_keypoints[OF assms(1,2)]
    by (auto simp: L_ACL_step_def analyze_keypoints_def Let_def)
qed



















lemma calculate_angle_right:
  assumes "y1 < y2" "x2 < x3"
  shows "calculate_angle (x2, y1) (x2, y2) (x3, y2) = 90"
proof -
  have n1: "np_norm (vsub (x2, y1) (x2, y2)) \<noteq> 0"
    using assms by (simp add: np_norm_zero_iff vsub_def)
  have n2: "np_norm (vsub (x3, y2) (x2, y2)) \<noteq> 0"
    using assms by (simp add: np_norm_zero_iff vsub_def)
  have d: "np_dot (vsub (x2, y1) (x2, y2)) (vsub (x3, y2) (x2, y2)) = 0"
    by (simp add: np_dot_def vsub_def)
  show ?thesis
    unfolding calculate_angle_def Let_def d
    using n1 n2 by (simp add: np_clip_def degrees_def)
qed

theorem L_ACL_step_function_witness:
  "(17 \<le> length squat_kp \<and> 17 \<le> length upright_conf \<and> usable squat_kp upright_conf 11 \<and>
    usable squat_kp upright_conf 13 \<and> usable squat_kp upright_conf 15) \<and>
   (\<exists>risks composite details.
      analyze_person squat_kp upright_conf = Inr (risks, composite, details) \<and>
      map_of risks ''L_ACL'' = Some 90)"
proof -
  have l: "17 \<le> length squat_kp" "17 \<le> length upright_conf"
    by (simp_all add: squat_kp_def upright_conf_def)
  have u: "usable squat_kp upright_conf 11" "usable squat_kp upright_conf 13"
    "usable squat_kp upright_conf 15"
    by (simp_all add: usable_def squat_kp_def upright_conf_def)
  have a: "calculate_angle (squat_kp ! 11) (squat_kp ! 13) (squat_kp ! 15) = 90"
    by (simp add: squat_kp_def calculate_angle_right)
  from L_ACL_step_function [OF l u, THEN conjunct1]
  have "\<exists>risks composite details.
      analyze_person squat_kp upright_conf = Inr (risks, composite, details) \<and>
      map_of risks ''L_ACL'' = Some 90"
    unfolding a by (simp add: L_ACL_step_def)
  with l u show ?thesis by blast
qed


subsection \<open>The console against the backend\<close>

























end
